theory Spec2Isabelle
  imports Main "HOL-Library.Sublist"
begin

section \<open>The extension subsystem of \<^verbatim>\<open>src/app/extensions.cpp\<close>\<close>

text \<open>
  A shallow embedding of \<^verbatim>\<open>app::Extension\<close> and \<^verbatim>\<open>app::Extensions\<close>.
  Everything the file reaches through another translation unit (the \<^verbatim>\<open>base::\<close> path
  and filesystem helpers, libarchive, the JSON reader, the configuration file, the
  selected-theme preference) is a parameter of the model: the pure helpers and the disk
  primitives are fields of the record \<open>ops\<close> over an abstract disk state \<open>'fs\<close>, the
  selected theme is an argument, and exceptions are values of the type \<open>error\<close>.
  The model covers the operations of the two classes on a catalog that exists; the
  constructor of \<^verbatim>\<open>Extensions\<close>, which scans the data directories, and the two wrappers
  \<^verbatim>\<open>enableExtension\<close> and \<^verbatim>\<open>uninstallExtension\<close> are left out.
\<close>

subsection \<open>Constants\<close>

definition kPackageJson :: string where
  "kPackageJson = ''package.json''"

definition kAsepriteDefaultThemeExtensionName :: string where
  "kAsepriteDefaultThemeExtensionName = ''aseprite-theme''"

text \<open>
  What a callee that takes a \<^verbatim>\<open>const char*\<close> reads of a \<^verbatim>\<open>std::string\<close> handed over with
  \<^verbatim>\<open>c_str()\<close>: the characters before the first NUL. The source does so with the package
  name that keys the configuration and with the path name set on an archive entry.
\<close>

definition c_str :: "string \<Rightarrow> string" where
  "c_str s = takeWhile (\<lambda>c. c \<noteq> CHR 0x00) s"

subsection \<open>Errors\<close>

text \<open>
  One constructor per kind of failure, named after the taxonomy of the specification.
  The throw sites of the source map to them as follows.
  \<^item> \<open>ArchiveOpenError\<close>: the two throws of the \<^verbatim>\<open>ReadArchive\<close> constructor.
  \<^item> \<open>ArchiveReadError\<close>: the throw of \<^verbatim>\<open>ReadArchive::readEntry\<close>.
  \<^item> \<open>ArchiveWriteError\<close>: the throws of \<^verbatim>\<open>WriteArchive::writeEntry\<close> and of
    \<^verbatim>\<open>copyDataTo(archive*)\<close>.
  \<^item> \<open>ManifestParseError\<close>: every exception of the JSON library (unreadable file,
    malformed text, missing or wrongly typed field).
  \<^item> \<open>InstallError\<close>: \<^verbatim>\<open>"Error adding the new extension"\<close>.
  \<^item> \<open>MissingManifestError\<close>: named by the specification; the source has no throw site
    for it.
  \<^item> \<open>FilesystemError\<close>: a failing \<^verbatim>\<open>base::delete_file\<close> or \<^verbatim>\<open>base::remove_directory\<close>.
  \<^item> \<open>AssertionFailed\<close>: a failing \<^verbatim>\<open>ASSERT\<close> of a debug build.
\<close>

datatype error =
    ArchiveOpenError
  | ArchiveReadError
  | ArchiveWriteError
  | ManifestParseError
  | MissingManifestError
  | InstallError
  | FilesystemError
  | AssertionFailed

subsection \<open>Collaborators\<close>

text \<open>
  An archive, as \<^verbatim>\<open>ReadArchive::readEntry\<close> sees it: the sequence of headers up to the end
  of the file. \<open>Damaged\<close> is a header on which \<^verbatim>\<open>archive_read_next_header\<close> returns neither
  \<^verbatim>\<open>ARCHIVE_OK\<close> nor \<^verbatim>\<open>ARCHIVE_EOF\<close>. The field \<open>data\<close> of an entry is the bytes that
  \<^verbatim>\<open>copyDataTo\<close> delivers for it; both call sites discard the status that \<^verbatim>\<open>copyDataTo\<close>
  returns on a read error, so a truncated entry is just an entry with less data.
\<close>

record archive_entry =
  pathname :: string
  data :: string

datatype header = Entry archive_entry | Damaged

text \<open>What the disk writer of libarchive reports for one entry.\<close>

datatype write_status = WriteOk | HeaderFailed | DataFailed | FinishFailed

text \<open>
  JSON values as the manifest reader produces them. An object is an association list read
  with \<open>map_of\<close>.
\<close>

datatype json =
    JNull
  | JBool bool
  | JNumber int
  | JString string
  | JArray "json list"
  | JObject "(string \<times> json) list"

record 'fs ops =
  join_path :: "string \<Rightarrow> string \<Rightarrow> string"
  get_file_path :: "string \<Rightarrow> string"
  get_file_name :: "string \<Rightarrow> string"
  get_file_title :: "string \<Rightarrow> string"
  open_file :: "'fs \<Rightarrow> string \<Rightarrow> bool"
  archive_read_open :: "'fs \<Rightarrow> string \<Rightarrow> header list option"
  archive_write :: "string \<Rightarrow> string \<Rightarrow> 'fs \<Rightarrow> write_status \<times> 'fs"
  from_stream :: "string \<Rightarrow> json option"
  parse_file :: "'fs \<Rightarrow> string \<Rightarrow> json option"
  list_files :: "'fs \<Rightarrow> string \<Rightarrow> string list"
  is_file :: "'fs \<Rightarrow> string \<Rightarrow> bool"
  is_directory :: "'fs \<Rightarrow> string \<Rightarrow> bool"
  delete_file :: "string \<Rightarrow> 'fs \<Rightarrow> bool \<times> 'fs"
  remove_directory :: "string \<Rightarrow> 'fs \<Rightarrow> bool \<times> 'fs"

text \<open>
  Modelled from the spec: the configuration collaborator (\<^verbatim>\<open>app/ini_file.h\<close> is not part
  of the sources at hand). The specification gives it three operations, \<^verbatim>\<open>getBool(section,
  key, default)\<close>, \<^verbatim>\<open>setBool(section, key, value)\<close> and \<^verbatim>\<open>flush()\<close>. The store also records
  every write it receives, in order, and counts the flushes.
\<close>

record config =
  cfg_values :: "string \<times> string \<rightharpoonup> bool"
  cfg_writes :: "(string \<times> string \<times> bool) list"
  cfg_flushes :: nat

definition get_config_bool :: "config \<Rightarrow> string \<Rightarrow> string \<Rightarrow> bool \<Rightarrow> bool" where
  "get_config_bool cfg sect key dflt =
     (case cfg_values cfg (sect, key) of None \<Rightarrow> dflt | Some b \<Rightarrow> b)"

definition set_config_bool :: "string \<Rightarrow> string \<Rightarrow> bool \<Rightarrow> config \<Rightarrow> config" where
  "set_config_bool sect key b cfg =
     cfg\<lparr>cfg_values := (cfg_values cfg)((sect, key) \<mapsto> b),
         cfg_writes := cfg_writes cfg @ [(sect, key, b)]\<rparr>"

definition flush_config_file :: "config \<Rightarrow> config" where
  "flush_config_file cfg = cfg\<lparr>cfg_flushes := Suc (cfg_flushes cfg)\<rparr>"

subsection \<open>The class \<^verbatim>\<open>Extension\<close>\<close>

text \<open>\<^verbatim>\<open>ExtensionItems\<close> is a \<^verbatim>\<open>std::map<std::string, std::string>\<close>.\<close>

type_synonym ExtensionItems = "string \<rightharpoonup> string"

record extension =
  m_path :: string
  m_name :: string
  m_displayName :: string
  m_isEnabled :: bool
  m_isInstalled :: bool
  m_isBuiltinExtension :: bool
  m_themes :: ExtensionItems
  m_palettes :: ExtensionItems

definition Extension :: "string \<Rightarrow> string \<Rightarrow> string \<Rightarrow> bool \<Rightarrow> bool \<Rightarrow> extension" where
  "Extension path name displayName isEnabled isBuiltinExtension =
     \<lparr>m_path = path, m_name = name, m_displayName = displayName,
      m_isEnabled = isEnabled, m_isInstalled = True,
      m_isBuiltinExtension = isBuiltinExtension,
      m_themes = Map.empty, m_palettes = Map.empty\<rparr>"

definition addTheme :: "string \<Rightarrow> string \<Rightarrow> extension \<Rightarrow> extension" where
  "addTheme ident path ext = ext\<lparr>m_themes := (m_themes ext)(ident \<mapsto> path)\<rparr>"

definition addPalette :: "string \<Rightarrow> string \<Rightarrow> extension \<Rightarrow> extension" where
  "addPalette ident path ext = ext\<lparr>m_palettes := (m_palettes ext)(ident \<mapsto> path)\<rparr>"

text \<open>
  \<open>selected\<close> is the value of \<^verbatim>\<open>Preferences::instance().theme.selected()\<close> at the time of
  the call.
\<close>

definition isCurrentTheme :: "string \<Rightarrow> extension \<Rightarrow> bool" where
  "isCurrentTheme selected ext = (m_themes ext selected \<noteq> None)"

definition isDefaultTheme :: "extension \<Rightarrow> bool" where
  "isDefaultTheme ext = (m_name ext = kAsepriteDefaultThemeExtensionName)"

definition canBeDisabled :: "string \<Rightarrow> extension \<Rightarrow> bool" where
  "canBeDisabled selected ext =
     (m_isEnabled ext \<and> \<not> isCurrentTheme selected ext \<and> \<not> isDefaultTheme ext)"

definition canBeUninstalled :: "string \<Rightarrow> extension \<Rightarrow> bool" where
  "canBeUninstalled selected ext =
     (\<not> m_isBuiltinExtension ext \<and> \<not> isCurrentTheme selected ext \<and> \<not> isDefaultTheme ext)"

definition enable :: "bool \<Rightarrow> extension \<Rightarrow> config \<Rightarrow> extension \<times> config" where
  "enable state ext cfg =
     (if m_isEnabled ext = state then (ext, cfg)
      else (ext\<lparr>m_isEnabled := state\<rparr>,
            flush_config_file
              (set_config_bool ''extensions'' (c_str (m_name ext)) state cfg)))"

text \<open>
  \<^verbatim>\<open>Extension::uninstallFiles\<close> recurses through the directory tree that the filesystem
  primitives report, which nothing in this file bounds; the model takes fuel, one unit per
  level of nesting, and \<open>None\<close> is a run that has not returned within it. The file list of
  a directory is read once, before its items are visited. A failing primitive ends the
  run with the disk as it is then.
\<close>

fun uninstallFiles :: "nat \<Rightarrow> 'fs ops \<Rightarrow> string \<Rightarrow> 'fs \<Rightarrow> (error option \<times> 'fs) option"
  and uninstallItems ::
    "nat \<Rightarrow> 'fs ops \<Rightarrow> string \<Rightarrow> string list \<Rightarrow> 'fs \<Rightarrow> (error option \<times> 'fs) option"
where
  "uninstallFiles 0 ops path fs = None"
| "uninstallFiles (Suc n) ops path fs =
     (case uninstallItems n ops path (list_files ops fs path) fs of
        None \<Rightarrow> None
      | Some (Some e, fs') \<Rightarrow> Some (Some e, fs')
      | Some (None, fs') \<Rightarrow>
          (case remove_directory ops path fs' of
             (True, fs'') \<Rightarrow> Some (None, fs'')
           | (False, fs'') \<Rightarrow> Some (Some FilesystemError, fs'')))"
| "uninstallItems n ops path [] fs = Some (None, fs)"
| "uninstallItems n ops path (item # items) fs =
     (let fn = join_path ops path item in
      if is_file ops fs fn then
        (case delete_file ops fn fs of
           (True, fs') \<Rightarrow> uninstallItems n ops path items fs'
         | (False, fs') \<Rightarrow> Some (Some FilesystemError, fs'))
      else if is_directory ops fs fn then
        (case uninstallFiles n ops fn fs of
           None \<Rightarrow> None
         | Some (Some e, fs') \<Rightarrow> Some (Some e, fs')
         | Some (None, fs') \<Rightarrow> uninstallItems n ops path items fs')
      else uninstallItems n ops path items fs)"

text \<open>
  \<^verbatim>\<open>Extension::uninstall\<close>. \<open>debug\<close> tells whether \<^verbatim>\<open>ASSERT\<close> is compiled in; without it
  the two assertions do nothing and the test that follows the first one returns early.
\<close>

definition uninstall ::
  "nat \<Rightarrow> 'fs ops \<Rightarrow> bool \<Rightarrow> string \<Rightarrow> extension \<Rightarrow> 'fs \<Rightarrow> ((error + extension) \<times> 'fs) option"
where
  "uninstall fuel ops debug selected ext fs =
     (if \<not> m_isInstalled ext then Some (Inr ext, fs)
      else if debug \<and> \<not> canBeUninstalled selected ext then Some (Inl AssertionFailed, fs)
      else if \<not> canBeUninstalled selected ext then Some (Inr ext, fs)
      else
        (case uninstallFiles fuel ops (m_path ext) fs of
           None \<Rightarrow> None
         | Some (Some e, fs') \<Rightarrow> Some (Inl e, fs')
         | Some (None, fs') \<Rightarrow>
             if debug \<and> is_directory ops fs' (m_path ext) then Some (Inl AssertionFailed, fs')
             else Some (Inr (ext\<lparr>m_isEnabled := False, m_isInstalled := False\<rparr>), fs')))"

subsection \<open>The class \<^verbatim>\<open>Extensions\<close>: queries\<close>

text \<open>
  The signals of the catalog are recorded in the order they are emitted, each with the
  name of the extension it carries.
\<close>

datatype signal = NewExtension string | ThemesChange string | PalettesChange string

record extensions =
  m_userExtensionsPath :: string
  m_extensions :: "extension list"
  signals :: "signal list"

fun themePath_loop :: "extension list \<Rightarrow> string \<Rightarrow> string" where
  "themePath_loop [] themeId = []"
| "themePath_loop (ext # rest) themeId =
     (if \<not> m_isEnabled ext then themePath_loop rest themeId
      else (case m_themes ext themeId of
              Some p \<Rightarrow> p
            | None \<Rightarrow> themePath_loop rest themeId))"

definition themePath :: "extensions \<Rightarrow> string \<Rightarrow> string" where
  "themePath c themeId = themePath_loop (m_extensions c) themeId"

fun palettePath_loop :: "extension list \<Rightarrow> string \<Rightarrow> string" where
  "palettePath_loop [] palId = []"
| "palettePath_loop (ext # rest) palId =
     (if \<not> m_isEnabled ext then palettePath_loop rest palId
      else (case m_palettes ext palId of
              Some p \<Rightarrow> p
            | None \<Rightarrow> palettePath_loop rest palId))"

definition palettePath :: "extensions \<Rightarrow> string \<Rightarrow> string" where
  "palettePath c palId = palettePath_loop (m_extensions c) palId"

text \<open>
  \<^verbatim>\<open>Extensions::palettes\<close>. The inner loop assigns every item of the extension's map into
  the result; on a \<^verbatim>\<open>std::map\<close>, whose keys are distinct, that is \<open>acc ++ m_palettes ext\<close>.
\<close>

fun palettes_loop :: "extension list \<Rightarrow> ExtensionItems \<Rightarrow> ExtensionItems" where
  "palettes_loop [] acc = acc"
| "palettes_loop (ext # rest) acc =
     (if \<not> m_isEnabled ext then palettes_loop rest acc
      else palettes_loop rest (acc ++ m_palettes ext))"

definition palettes :: "extensions \<Rightarrow> ExtensionItems" where
  "palettes c = palettes_loop (m_extensions c) Map.empty"

subsection \<open>The archive reader and the disk writer\<close>

text \<open>
  The constructor of \<^verbatim>\<open>ReadArchive\<close>: it opens the file and hands it to libarchive, and
  throws where either step fails. The result is the sequence of headers that
  \<^verbatim>\<open>readEntry\<close> will return one by one.
\<close>

definition ReadArchive :: "'fs ops \<Rightarrow> 'fs \<Rightarrow> string \<Rightarrow> error + header list" where
  "ReadArchive ops fs filename =
     (if \<not> open_file ops fs filename then Inl ArchiveOpenError
      else (case archive_read_open ops fs filename of
              None \<Rightarrow> Inl ArchiveOpenError
            | Some hs \<Rightarrow> Inr hs))"

text \<open>
  \<^verbatim>\<open>WriteArchive::writeEntry\<close> on an entry whose path name has been set to \<open>fullFn\<close>: the
  header, the data blocks and the end of the entry each throw on failure.
\<close>

definition writeEntry :: "'fs ops \<Rightarrow> string \<Rightarrow> string \<Rightarrow> 'fs \<Rightarrow> error option \<times> 'fs" where
  "writeEntry ops fullFn bytes fs =
     (case archive_write ops fullFn bytes fs of
        (WriteOk, fs') \<Rightarrow> (None, fs')
      | (HeaderFailed, fs') \<Rightarrow> (Some ArchiveWriteError, fs')
      | (DataFailed, fs') \<Rightarrow> (Some ArchiveWriteError, fs')
      | (FinishFailed, fs') \<Rightarrow> (Some ArchiveWriteError, fs'))"

subsection \<open>Reading the manifest\<close>

text \<open>
  Modelled from the spec: the accessors of the JSON library (\<^verbatim>\<open>tao/json.hpp\<close> is not part
  of the sources at hand). The specification makes a missing or wrongly typed required
  field a parse error and lets optional fields be absent: indexing an object with a key
  it lacks gives null, \<^verbatim>\<open>at\<close> requires the key, and \<^verbatim>\<open>get_string\<close> requires a string.
\<close>

definition json_index :: "json \<Rightarrow> string \<Rightarrow> error + json" where
  "json_index j key =
     (case j of
        JObject kvs \<Rightarrow> (case map_of kvs key of None \<Rightarrow> Inr JNull | Some v \<Rightarrow> Inr v)
      | _ \<Rightarrow> Inl ManifestParseError)"

definition json_at :: "json \<Rightarrow> string \<Rightarrow> error + json" where
  "json_at j key =
     (case j of
        JObject kvs \<Rightarrow> (case map_of kvs key of None \<Rightarrow> Inl ManifestParseError | Some v \<Rightarrow> Inr v)
      | _ \<Rightarrow> Inl ManifestParseError)"

definition get_string :: "json \<Rightarrow> error + string" where
  "get_string j = (case j of JString s \<Rightarrow> Inr s | _ \<Rightarrow> Inl ManifestParseError)"

definition is_object :: "json \<Rightarrow> bool" where
  "is_object j = (case j of JObject kvs \<Rightarrow> True | _ \<Rightarrow> False)"

text \<open>An exception leaves the rest of the computation undone.\<close>

definition and_then :: "error + 'a \<Rightarrow> ('a \<Rightarrow> error + 'b) \<Rightarrow> error + 'b" where
  "and_then r k = (case r of Inl e \<Rightarrow> Inl e | Inr x \<Rightarrow> k x)"

fun addThemes :: "'fs ops \<Rightarrow> string \<Rightarrow> json list \<Rightarrow> extension \<Rightarrow> error + extension" where
  "addThemes ops path [] ext = Inr ext"
| "addThemes ops path (theme # rest) ext =
     and_then (and_then (json_at theme ''id'') get_string) (\<lambda>themeId.
     and_then (and_then (json_at theme ''path'') get_string) (\<lambda>themePath.
       addThemes ops path rest (addTheme themeId (join_path ops path themePath) ext)))"

fun addPalettes :: "'fs ops \<Rightarrow> string \<Rightarrow> json list \<Rightarrow> extension \<Rightarrow> error + extension" where
  "addPalettes ops path [] ext = Inr ext"
| "addPalettes ops path (palette # rest) ext =
     and_then (and_then (json_at palette ''id'') get_string) (\<lambda>palId.
     and_then (and_then (json_at palette ''path'') get_string) (\<lambda>palPath.
       addPalettes ops path rest (addPalette palId (join_path ops path palPath) ext)))"

text \<open>
  \<^verbatim>\<open>Extensions::loadExtension\<close>. The extension is appended to the catalog only when no
  exception has been thrown; the function never returns a null pointer.
\<close>

definition loadExtension ::
  "'fs ops \<Rightarrow> extensions \<Rightarrow> string \<Rightarrow> string \<Rightarrow> bool \<Rightarrow> config \<Rightarrow> 'fs
     \<Rightarrow> error + extension \<times> extensions"
where
  "loadExtension ops c path fullPackageFilename isBuiltinExtension cfg fs =
     (case parse_file ops fs fullPackageFilename of
        None \<Rightarrow> Inl ManifestParseError
      | Some json \<Rightarrow>
          and_then (and_then (json_index json ''name'') get_string) (\<lambda>name.
          and_then (and_then (json_index json ''displayName'') get_string) (\<lambda>displayName.
          and_then (json_index json ''contributes'') (\<lambda>contributes.
          and_then
            (let extension =
               Extension path name displayName
                 (get_config_bool cfg ''extensions'' (c_str name) True) isBuiltinExtension
             in
             if is_object contributes then
               and_then (json_index contributes ''themes'') (\<lambda>themes.
               and_then
                 (case themes of
                    JArray xs \<Rightarrow> addThemes ops path xs extension
                  | _ \<Rightarrow> Inr extension) (\<lambda>extension.
               and_then (json_index contributes ''palettes'') (\<lambda>palettes.
                 (case palettes of
                    JArray xs \<Rightarrow> addPalettes ops path xs extension
                  | _ \<Rightarrow> Inr extension))))
             else Inr extension) (\<lambda>extension.
          Inr (extension, c\<lparr>m_extensions := m_extensions c @ [extension]\<rparr>))))))"

definition generateExtensionSignals :: "extension \<Rightarrow> signal list" where
  "generateExtensionSignals ext =
     (if m_themes ext \<noteq> Map.empty then [ThemesChange (m_name ext)] else []) @
     (if m_palettes ext \<noteq> Map.empty then [PalettesChange (m_name ext)] else [])"

subsection \<open>Installing a compressed extension\<close>

text \<open>
  The first loop of \<^verbatim>\<open>installCompressedExtension\<close>. The pair is \<open>(commonPath,
  dstExtensionPath)\<close>: it is returned as it came in when no entry has the file name of the
  manifest, and set from the first such entry otherwise.
\<close>

fun inspectArchive ::
  "'fs ops \<Rightarrow> string \<Rightarrow> header list \<Rightarrow> string \<times> string \<Rightarrow> error + string \<times> string"
where
  "inspectArchive ops userPath [] acc = Inr acc"
| "inspectArchive ops userPath (Damaged # rest) acc = Inl ArchiveReadError"
| "inspectArchive ops userPath (Entry entry # rest) acc =
     (let entryFn = pathname entry in
      if get_file_name ops entryFn \<noteq> kPackageJson then inspectArchive ops userPath rest acc
      else
        (let dir = get_file_path ops entryFn;
             commonPath =
               (if dir \<noteq> [] \<and> length entryFn > length dir
                then dir @ [entryFn ! length dir] else dir)
         in
         case from_stream ops (data entry) of
           None \<Rightarrow> Inl ManifestParseError
         | Some json \<Rightarrow>
             and_then (and_then (json_index json ''name'') get_string) (\<lambda>name.
               Inr (commonPath, join_path ops userPath name))))"

text \<open>
  The second loop. \<^verbatim>\<open>fn.compare(0, commonPath.size(), commonPath) != 0\<close> compares the first
  \<open>length commonPath\<close> characters of \<open>fn\<close> (fewer when \<open>fn\<close> is shorter) with \<open>commonPath\<close>.
  The path name of the entry is set with \<^verbatim>\<open>fullFn.c_str()\<close>.
\<close>

fun uncompress ::
  "'fs ops \<Rightarrow> string \<Rightarrow> string \<Rightarrow> header list \<Rightarrow> 'fs \<Rightarrow> error option \<times> 'fs"
where
  "uncompress ops commonPath dstExtensionPath [] fs = (None, fs)"
| "uncompress ops commonPath dstExtensionPath (Damaged # rest) fs = (Some ArchiveReadError, fs)"
| "uncompress ops commonPath dstExtensionPath (Entry entry # rest) fs =
     (let fn = pathname entry;
          kept =
            (if commonPath \<noteq> [] then
               (if take (length commonPath) fn \<noteq> commonPath then None
                else (let fn = drop (length commonPath) fn in
                      if fn = [] then None else Some fn))
             else Some fn)
      in
      case kept of
        None \<Rightarrow> uncompress ops commonPath dstExtensionPath rest fs
      | Some fn \<Rightarrow>
          (case writeEntry ops (c_str (join_path ops dstExtensionPath fn)) (data entry) fs of
             (Some e, fs') \<Rightarrow> (Some e, fs')
           | (None, fs') \<Rightarrow> uncompress ops commonPath dstExtensionPath rest fs'))"

text \<open>
  \<^verbatim>\<open>Extensions::installCompressedExtension\<close>. The result is the value or the exception, the
  catalog and the disk afterwards; what has been written stays written when a later step
  throws. The archive is opened twice, on the same disk. The test for a null result of
  \<^verbatim>\<open>loadExtension\<close> has no branch here, since \<^verbatim>\<open>loadExtension\<close> returns the object it has
  created or throws.
\<close>

definition installCompressedExtension ::
  "'fs ops \<Rightarrow> extensions \<Rightarrow> string \<Rightarrow> config \<Rightarrow> 'fs
     \<Rightarrow> (error + extension) \<times> extensions \<times> 'fs"
where
  "installCompressedExtension ops c zipFn cfg fs =
     (let dstExtensionPath =
            join_path ops (m_userExtensionsPath c) (get_file_title ops zipFn)
      in
      case ReadArchive ops fs zipFn of
        Inl e \<Rightarrow> (Inl e, c, fs)
      | Inr hs \<Rightarrow>
      (case inspectArchive ops (m_userExtensionsPath c) hs ([], dstExtensionPath) of
        Inl e \<Rightarrow> (Inl e, c, fs)
      | Inr (commonPath, dstExtensionPath) \<Rightarrow>
      (case ReadArchive ops fs zipFn of
        Inl e \<Rightarrow> (Inl e, c, fs)
      | Inr hs2 \<Rightarrow>
      (case uncompress ops commonPath dstExtensionPath hs2 fs of
        (Some e, fs') \<Rightarrow> (Inl e, c, fs')
      | (None, fs') \<Rightarrow>
      (case loadExtension ops c dstExtensionPath
              (join_path ops dstExtensionPath kPackageJson) False cfg fs' of
        Inl e \<Rightarrow> (Inl e, c, fs')
      | Inr (extension, c') \<Rightarrow>
          (Inr extension,
           c'\<lparr>signals := signals c' @ [NewExtension (m_name extension)]
                          @ generateExtensionSignals extension\<rparr>,
           fs'))))))"

subsection \<open>Notions of the specification\<close>

text \<open>
  The definitions of this subsection follow the words of the specification, not the
  source; the theorems compare the source with them.

  Writing files to the disk one after the other: each file is handed to the disk writer
  with its path and its bytes, and the first one that the writer does not report as
  written ends the sequence with a write error.
\<close>

fun write_all :: "'fs ops \<Rightarrow> (string \<times> string) list \<Rightarrow> 'fs \<Rightarrow> error option \<times> 'fs" where
  "write_all ops [] fs = (None, fs)"
| "write_all ops ((fullFn, bytes) # rest) fs =
     (let (status, fs') = archive_write ops fullFn bytes fs in
      if status = WriteOk then write_all ops rest fs' else (Some ArchiveWriteError, fs'))"

text \<open>An entry whose filename matches the manifest filename.\<close>

definition is_manifest_entry :: "'fs ops \<Rightarrow> header \<Rightarrow> bool" where
  "is_manifest_entry ops h =
     (case h of Entry e \<Rightarrow> get_file_name ops (pathname e) = kPackageJson | Damaged \<Rightarrow> False)"

text \<open>The name that the manifest held by an archive entry declares.\<close>

definition declared_name :: "'fs ops \<Rightarrow> archive_entry \<Rightarrow> string option" where
  "declared_name ops e =
     (case from_stream ops (data e) of
        Some (JObject kvs) \<Rightarrow> (case map_of kvs ''name'' of Some (JString n) \<Rightarrow> Some n | _ \<Rightarrow> None)
      | _ \<Rightarrow> None)"

text \<open>
  The contributions of one kind (\<open>''themes''\<close> or \<open>''palettes''\<close>) that a manifest declares,
  in the order of the document: pairs of an id and a relative path.
\<close>

definition contribution :: "json \<Rightarrow> (string \<times> string) option" where
  "contribution j =
     (case j of
        JObject kvs \<Rightarrow>
          (case (map_of kvs ''id'', map_of kvs ''path'') of
             (Some (JString i), Some (JString rel)) \<Rightarrow> Some (i, rel)
           | _ \<Rightarrow> None)
      | _ \<Rightarrow> None)"

definition declared :: "json \<Rightarrow> string \<Rightarrow> (string \<times> string) list" where
  "declared j kind =
     (case j of
        JObject kvs \<Rightarrow>
          (case map_of kvs ''contributes'' of
             Some (JObject ckvs) \<Rightarrow>
               (case map_of ckvs kind of
                  Some (JArray xs) \<Rightarrow> List.map_filter contribution xs
                | _ \<Rightarrow> [])
           | _ \<Rightarrow> [])
      | _ \<Rightarrow> [])"

text \<open>
  The mapping that stores, for every declared contribution, its relative path resolved
  against the root directory of the package; a later declaration of an id replaces an
  earlier one.
\<close>

definition rooted :: "'fs ops \<Rightarrow> string \<Rightarrow> (string \<times> string) list \<Rightarrow> ExtensionItems" where
  "rooted ops root decls = map_of (rev (map (\<lambda>(i, rel). (i, join_path ops root rel)) decls))"

text \<open>
  The package that answers a lookup of \<open>ident\<close> among \<open>exts\<close>: the first one that is enabled
  and whose mapping (selected by \<open>items\<close>) contains \<open>ident\<close>.
\<close>

definition contributes_to :: "(extension \<Rightarrow> ExtensionItems) \<Rightarrow> string \<Rightarrow> extension \<Rightarrow> bool" where
  "contributes_to items ident ext = (m_isEnabled ext \<and> items ext ident \<noteq> None)"

definition first_match ::
  "(extension \<Rightarrow> ExtensionItems) \<Rightarrow> string \<Rightarrow> extension list \<Rightarrow> string option" where
  "first_match items ident exts =
     (case find (contributes_to items ident) exts of
        None \<Rightarrow> None
      | Some ext \<Rightarrow> items ext ident)"

text \<open>The merge of the palette mappings of the enabled packages, later ones on top.\<close>

definition merged_palettes :: "extension list \<Rightarrow> ExtensionItems" where
  "merged_palettes exts = foldl (++) Map.empty (map m_palettes (filter m_isEnabled exts))"

text \<open>Two consecutive calls of \<^verbatim>\<open>enable\<close> with the same value.\<close>

definition enable_twice :: "bool \<Rightarrow> extension \<Rightarrow> config \<Rightarrow> extension \<times> config" where
  "enable_twice state ext cfg = (case enable state ext cfg of (ext', cfg') \<Rightarrow> enable state ext' cfg')"

subsection \<open>A concrete disk and concrete collaborators\<close>

text \<open>
  An instance of \<open>ops\<close> on which the model runs: the disk is a list of files, each a path
  with its contents, directories are the prefixes of the paths up to a \<open>/\<close>, and the
  manifest text \<open>''{foo}''\<close> stands for the document \<open>demo_manifest\<close>.
\<close>

type_synonym demo_disk = "(string \<times> string) list"

definition demo_join_path :: "string \<Rightarrow> string \<Rightarrow> string" where
  "demo_join_path path file =
     (if path \<noteq> [] \<and> last path \<noteq> CHR ''/'' then path @ ''/'' @ file else path @ file)"

definition demo_file_name :: "string \<Rightarrow> string" where
  "demo_file_name s = rev (takeWhile (\<lambda>c. c \<noteq> CHR ''/'') (rev s))"

definition demo_file_path :: "string \<Rightarrow> string" where
  "demo_file_path s = rev (drop 1 (dropWhile (\<lambda>c. c \<noteq> CHR ''/'') (rev s)))"

definition demo_file_title :: "string \<Rightarrow> string" where
  "demo_file_title s = takeWhile (\<lambda>c. c \<noteq> CHR ''.'') (demo_file_name s)"

definition demo_manifest :: json where
  "demo_manifest =
     JObject
       [(''name'', JString ''foo''),
        (''displayName'', JString ''Foo''),
        (''contributes'',
         JObject
           [(''themes'',
             JArray [JObject [(''id'', JString ''dark''), (''path'', JString ''theme.ase'')]]),
            (''palettes'',
             JArray [JObject [(''id'', JString ''p1''), (''path'', JString ''p1.gpl'')]])])]"

definition demo_json :: "string \<Rightarrow> json option" where
  "demo_json txt = (if txt = ''{foo}'' then Some demo_manifest else None)"

definition foo_zip :: "archive_entry list" where
  "foo_zip =
     [\<lparr>pathname = ''foo/'', data = []\<rparr>,
      \<lparr>pathname = ''foo/package.json'', data = ''{foo}''\<rparr>,
      \<lparr>pathname = ''foo/theme.ase'', data = ''T''\<rparr>,
      \<lparr>pathname = ''bar/stray.txt'', data = ''S''\<rparr>]"


definition notes_zip :: "archive_entry list" where
  "notes_zip = [\<lparr>pathname = ''readme.txt'', data = ''hello''\<rparr>]"

definition demo_archives :: "string \<Rightarrow> header list option" where
  "demo_archives zipFn =
     (if zipFn = ''/tmp/foo.zip'' then Some (map Entry foo_zip)
      else if zipFn = ''/tmp/notes.zip'' then Some (map Entry notes_zip)
      else None)"

definition demo_inside :: "string \<Rightarrow> string \<Rightarrow> bool" where
  "demo_inside dir p = (take (Suc (length dir)) p = dir @ ''/'')"

definition demo_ops :: "demo_disk ops" where
  "demo_ops =
     \<lparr>join_path = demo_join_path,
      get_file_path = demo_file_path,
      get_file_name = demo_file_name,
      get_file_title = demo_file_title,
      open_file = (\<lambda>fs zipFn. demo_archives zipFn \<noteq> None),
      archive_read_open = (\<lambda>fs zipFn. demo_archives zipFn),
      archive_write = (\<lambda>p bytes fs. (WriteOk, (p, bytes) # filter (\<lambda>f. fst f \<noteq> p) fs)),
      from_stream = demo_json,
      parse_file = (\<lambda>fs p. case map_of fs p of None \<Rightarrow> None | Some txt \<Rightarrow> demo_json txt),
      list_files =
        (\<lambda>fs dir.
           remdups
             (map (\<lambda>f. takeWhile (\<lambda>c. c \<noteq> CHR ''/'') (drop (Suc (length dir)) (fst f)))
                (filter (\<lambda>f. demo_inside dir (fst f)) fs))),
      is_file = (\<lambda>fs p. map_of fs p \<noteq> None),
      is_directory = (\<lambda>fs p. list_ex (\<lambda>f. demo_inside p (fst f)) fs),
      delete_file = (\<lambda>p fs. (True, filter (\<lambda>f. fst f \<noteq> p) fs)),
      remove_directory = (\<lambda>p fs. (True, fs))\<rparr>"

definition demo_catalog :: extensions where
  "demo_catalog = \<lparr>m_userExtensionsPath = ''/ext'', m_extensions = [], signals = []\<rparr>"

definition demo_config :: config where
  "demo_config = \<lparr>cfg_values = Map.empty, cfg_writes = [], cfg_flushes = 0\<rparr>"

definition foo_ext :: extension where
  "foo_ext =
     \<lparr>m_path = ''/ext/foo'', m_name = ''foo'', m_displayName = ''Foo'',
      m_isEnabled = True, m_isInstalled = True, m_isBuiltinExtension = False,
      m_themes = [''dark'' \<mapsto> ''/ext/foo/theme.ase''],
      m_palettes = [''p1'' \<mapsto> ''/ext/foo/p1.gpl'']\<rparr>"

definition foo_disk :: demo_disk where
  "foo_disk = [(''/ext/foo/theme.ase'', ''T''), (''/ext/foo/package.json'', ''{foo}'')]"

section \<open>Properties\<close>

lemmas demo_defs =
  demo_ops_def demo_join_path_def demo_file_name_def demo_file_path_def demo_file_title_def
  demo_json_def demo_archives_def foo_zip_def notes_zip_def demo_inside_def demo_catalog_def
  demo_config_def demo_manifest_def foo_ext_def foo_disk_def

subsection \<open>The policy predicates\<close>

text \<open>
  C4. A package whose name is the reserved default theme name cannot be disabled, whatever
  its flags and whatever theme is selected.
\<close>

theorem default_theme_cannot_be_disabled:
  "m_name ext = kAsepriteDefaultThemeExtensionName \<Longrightarrow> \<not> canBeDisabled selected ext"
  by (simp add: canBeDisabled_def isDefaultTheme_def)

theorem default_theme_cannot_be_disabled_witness:
  "m_name (foo_ext\<lparr>m_name := ''aseprite-theme''\<rparr>) = kAsepriteDefaultThemeExtensionName
   \<and> \<not> canBeDisabled ''light'' (foo_ext\<lparr>m_name := ''aseprite-theme''\<rparr>)"
proof -
  have h: "m_name (foo_ext\<lparr>m_name := ''aseprite-theme''\<rparr>) = kAsepriteDefaultThemeExtensionName"
    by (simp add: kAsepriteDefaultThemeExtensionName_def)
  from h default_theme_cannot_be_disabled [OF h, of "''light''"] show ?thesis by simp
qed

text \<open>C5. A built-in package cannot be uninstalled.\<close>

theorem builtin_cannot_be_uninstalled:
  "m_isBuiltinExtension ext \<Longrightarrow> \<not> canBeUninstalled selected ext"
  by (simp add: canBeUninstalled_def)

theorem builtin_cannot_be_uninstalled_witness:
  "m_isBuiltinExtension (foo_ext\<lparr>m_isBuiltinExtension := True\<rparr>)
   \<and> \<not> canBeUninstalled ''light'' (foo_ext\<lparr>m_isBuiltinExtension := True\<rparr>)"
proof -
  have h: "m_isBuiltinExtension (foo_ext\<lparr>m_isBuiltinExtension := True\<rparr>)"
    by simp
  from h builtin_cannot_be_uninstalled [OF h, of "''light''"] show ?thesis by simp
qed

subsection \<open>Enabling\<close>

text \<open>
  C6 as stated fails where it says that two consecutive calls always write exactly once: on
  a package that is enabled already, two calls of \<^verbatim>\<open>enable(true)\<close> write nothing and
  flush nothing.
\<close>

theorem enable_twice_writes_once_counterexample:
  "cfg_writes (snd (enable_twice True foo_ext demo_config)) = []
   \<and> cfg_flushes (snd (enable_twice True foo_ext demo_config)) = 0"
  by (simp add: enable_twice_def enable_def foo_ext_def demo_config_def)

text \<open>
  C6, amended. A call of \<^verbatim>\<open>enable(x)\<close> on a package whose flag equals \<open>x\<close> already changes
  neither the package nor the configuration. Two consecutive calls with the same value
  do what one call does: they write the boolean under the package's name (as the
  configuration reads it from \<^verbatim>\<open>m_name.c_str()\<close>) and flush once when the flag differed from
  \<open>x\<close> at first, and write and flush nothing when it did not.
\<close>

theorem enable_idempotent:
  "(m_isEnabled ext = x \<longrightarrow> enable x ext cfg = (ext, cfg))
   \<and> enable_twice x ext cfg = enable x ext cfg
   \<and> cfg_writes (snd (enable_twice x ext cfg)) =
       cfg_writes cfg
       @ (if m_isEnabled ext = x then [] else [(''extensions'', c_str (m_name ext), x)])
   \<and> cfg_flushes (snd (enable_twice x ext cfg)) =
       cfg_flushes cfg + (if m_isEnabled ext = x then 0 else 1)"
  by (simp add: enable_twice_def enable_def set_config_bool_def flush_config_file_def)

theorem enable_idempotent_witness:
  "enable True foo_ext demo_config = (foo_ext, demo_config)
   \<and> cfg_writes (snd (enable_twice True foo_ext demo_config)) = []
   \<and> cfg_writes (snd (enable_twice False foo_ext demo_config)) = [(''extensions'', ''foo'', False)]
   \<and> cfg_flushes (snd (enable_twice False foo_ext demo_config)) = 1
   \<and> cfg_writes
        (snd (enable_twice False (foo_ext\<lparr>m_name := ''foo'' @ [CHR 0x00] @ ''bar''\<rparr>) demo_config))
       = [(''extensions'', ''foo'', False)]"
proof -
  have ext: "m_isEnabled foo_ext = True" "c_str (m_name foo_ext) = ''foo''"
    by (simp_all add: foo_ext_def c_str_def)
  have nul: "m_isEnabled (foo_ext\<lparr>m_name := ''foo'' @ [CHR 0x00] @ ''bar''\<rparr>) = True"
    "c_str (m_name (foo_ext\<lparr>m_name := ''foo'' @ [CHR 0x00] @ ''bar''\<rparr>)) = ''foo''"
    by (simp_all add: foo_ext_def c_str_def)
  note cut =
    enable_idempotent [of "foo_ext\<lparr>m_name := ''foo'' @ [CHR 0x00] @ ''bar''\<rparr>" False demo_config]
  have cfg: "cfg_writes demo_config = []" "cfg_flushes demo_config = 0"
    by (simp_all add: demo_config_def)
  note same = enable_idempotent [of foo_ext True demo_config]
  note other = enable_idempotent [of foo_ext False demo_config]
  from same [THEN conjunct1] ext
  have "enable True foo_ext demo_config = (foo_ext, demo_config)"
    by simp
  moreover
  from same [THEN conjunct2, THEN conjunct2, THEN conjunct1] ext cfg
  have "cfg_writes (snd (enable_twice True foo_ext demo_config)) = []"
    by simp
  moreover
  from other [THEN conjunct2, THEN conjunct2, THEN conjunct1] ext cfg
  have "cfg_writes (snd (enable_twice False foo_ext demo_config)) = [(''extensions'', ''foo'', False)]"
    by simp
  moreover
  from other [THEN conjunct2, THEN conjunct2, THEN conjunct2] ext cfg
  have "cfg_flushes (snd (enable_twice False foo_ext demo_config)) = 1"
    by simp
  moreover
  from cut [THEN conjunct2, THEN conjunct2, THEN conjunct1] nul cfg
  have "cfg_writes
          (snd (enable_twice False (foo_ext\<lparr>m_name := ''foo'' @ [CHR 0x00] @ ''bar''\<rparr>)
             demo_config))
        = [(''extensions'', ''foo'', False)]"
    by simp
  ultimately show ?thesis by simp
qed

subsection \<open>Uninstalling\<close>

text \<open>
  C2 as stated fails for \<^verbatim>\<open>canBeUninstalled\<close>: the package \<open>foo_ext\<close> (installed, enabled,
  not built in, not the selected theme) is uninstalled with all its files, and
  \<^verbatim>\<open>canBeUninstalled\<close> is true of it afterwards.
\<close>

theorem uninstall_keeps_canBeUninstalled_counterexample:
  "uninstall 1 demo_ops False ''light'' foo_ext foo_disk =
     Some (Inr (foo_ext\<lparr>m_isEnabled := False, m_isInstalled := False\<rparr>), [])
   \<and> canBeUninstalled ''light'' (foo_ext\<lparr>m_isEnabled := False, m_isInstalled := False\<rparr>)"
  by (simp add: uninstall_def canBeUninstalled_def isCurrentTheme_def isDefaultTheme_def
      kAsepriteDefaultThemeExtensionName_def demo_defs)

text \<open>
  C2, amended. When \<^verbatim>\<open>uninstall()\<close> returns, \<^verbatim>\<open>canBeUninstalled\<close> has the value it had
  before the call, since it does not read the installed flag. When the package was
  installed and could be uninstalled, so that the call has removed it, both flags are
  false afterwards and \<^verbatim>\<open>canBeDisabled\<close> is false, while \<^verbatim>\<open>canBeUninstalled\<close> is still
  true.
\<close>

theorem uninstall_flags:
  assumes "uninstall fuel ops debug selected ext fs = Some (Inr ext', fs')"
  shows "canBeUninstalled selected ext' = canBeUninstalled selected ext
     \<and> (m_isInstalled ext \<and> canBeUninstalled selected ext \<longrightarrow>
          \<not> m_isEnabled ext' \<and> \<not> m_isInstalled ext' \<and> \<not> canBeDisabled selected ext'
          \<and> canBeUninstalled selected ext')"
  using assms
  by (auto simp: uninstall_def canBeUninstalled_def canBeDisabled_def isCurrentTheme_def
      isDefaultTheme_def split: if_splits option.splits prod.splits)

theorem uninstall_flags_witness:
  "uninstall 1 demo_ops False ''light'' foo_ext foo_disk =
     Some (Inr (foo_ext\<lparr>m_isEnabled := False, m_isInstalled := False\<rparr>), [])
   \<and> m_isInstalled foo_ext
   \<and> canBeUninstalled ''light'' foo_ext
   \<and> \<not> canBeDisabled ''light'' (foo_ext\<lparr>m_isEnabled := False, m_isInstalled := False\<rparr>)
   \<and> canBeUninstalled ''light'' (foo_ext\<lparr>m_isEnabled := False, m_isInstalled := False\<rparr>)"
proof -
  have run: "uninstall 1 demo_ops False ''light'' foo_ext foo_disk =
      Some (Inr (foo_ext\<lparr>m_isEnabled := False, m_isInstalled := False\<rparr>), [])"
    by (simp add: uninstall_def canBeUninstalled_def isCurrentTheme_def isDefaultTheme_def
        kAsepriteDefaultThemeExtensionName_def demo_defs)
  have inst: "m_isInstalled foo_ext"
    by (simp add: foo_ext_def)
  have can: "canBeUninstalled ''light'' foo_ext"
    by (simp add: canBeUninstalled_def isCurrentTheme_def isDefaultTheme_def
        kAsepriteDefaultThemeExtensionName_def foo_ext_def)
  from uninstall_flags [OF run] inst can run show ?thesis
    by simp
qed

subsection \<open>Lookups over the catalog\<close>

lemma themePath_loop_first_match:
  "themePath_loop exts ident =
     (case first_match m_themes ident exts of None \<Rightarrow> [] | Some p \<Rightarrow> p)"
  by (induction exts) (auto simp: first_match_def contributes_to_def split: option.splits)

lemma palettePath_loop_first_match:
  "palettePath_loop exts ident =
     (case first_match m_palettes ident exts of None \<Rightarrow> [] | Some p \<Rightarrow> p)"
  by (induction exts) (auto simp: first_match_def contributes_to_def split: option.splits)

lemma themePath_loop_enabled_only:
  "themePath_loop (filter m_isEnabled exts) ident = themePath_loop exts ident"
  by (induction exts) (auto split: option.splits)

lemma palettePath_loop_enabled_only:
  "palettePath_loop (filter m_isEnabled exts) ident = palettePath_loop exts ident"
  by (induction exts) (auto split: option.splits)

text \<open>
  C7. \<^verbatim>\<open>themePath\<close> and \<^verbatim>\<open>palettePath\<close> return the path that the first package in catalog
  order which is enabled and contributes the id gives for it, and the empty string when
  there is none; removing the disabled packages from the catalog changes no answer.
\<close>

theorem path_lookup_first_enabled_match:
  "themePath c ident =
     (case first_match m_themes ident (m_extensions c) of None \<Rightarrow> [] | Some p \<Rightarrow> p)
   \<and> palettePath c ident =
     (case first_match m_palettes ident (m_extensions c) of None \<Rightarrow> [] | Some p \<Rightarrow> p)
   \<and> themePath (c\<lparr>m_extensions := filter m_isEnabled (m_extensions c)\<rparr>) ident = themePath c ident
   \<and> palettePath (c\<lparr>m_extensions := filter m_isEnabled (m_extensions c)\<rparr>) ident
       = palettePath c ident"
proof -
  have "themePath (c\<lparr>m_extensions := filter m_isEnabled (m_extensions c)\<rparr>) ident
      = themePath c ident"
    by (simp add: themePath_def themePath_loop_enabled_only)
  moreover
  have "palettePath (c\<lparr>m_extensions := filter m_isEnabled (m_extensions c)\<rparr>) ident
      = palettePath c ident"
    by (simp add: palettePath_def palettePath_loop_enabled_only)
  ultimately show ?thesis
    by (simp add: themePath_def palettePath_def themePath_loop_first_match
        palettePath_loop_first_match)
qed

lemma palettes_loop_foldl:
  "palettes_loop exts acc = foldl (++) acc (map m_palettes (filter m_isEnabled exts))"
  by (induction exts arbitrary: acc) auto

lemma find_snoc:
  "find P (xs @ [x]) =
     (case find P xs of None \<Rightarrow> (if P x then Some x else None) | Some y \<Rightarrow> Some y)"
  by (induction xs) auto

lemma palettes_loop_lookup:
  "palettes_loop exts acc ident =
     (case find (contributes_to m_palettes ident) (rev exts) of
        None \<Rightarrow> acc ident
      | Some ext \<Rightarrow> m_palettes ext ident)"
proof (induction exts arbitrary: acc)
  case Nil
  show ?case by simp
next
  case (Cons ext rest)
  show ?case
  proof (cases "find (contributes_to m_palettes ident) (rev rest)")
    case None
    then show ?thesis
      by (auto simp: Cons.IH find_snoc contributes_to_def map_add_def split: option.splits)
  next
    case (Some a)
    then show ?thesis
      by (simp add: Cons.IH find_snoc)
  qed
qed

text \<open>
  C8. \<^verbatim>\<open>palettes()\<close> is the merge of the palette mappings of the enabled packages in
  catalog order, later ones on top: what it holds for an id is what the last enabled
  package that contributes the id gives, and nothing when there is none.
\<close>

theorem palettes_last_write_wins:
  "palettes c = merged_palettes (m_extensions c)
   \<and> palettes c ident = first_match m_palettes ident (rev (m_extensions c))"
proof -
  have "first_match m_palettes ident (rev (m_extensions c)) =
        (case find (contributes_to m_palettes ident) (rev (m_extensions c)) of
           None \<Rightarrow> None | Some ext \<Rightarrow> m_palettes ext ident)"
    by (simp add: first_match_def)
  then show ?thesis
    by (simp add: palettes_def merged_palettes_def palettes_loop_foldl [symmetric]
        palettes_loop_lookup)
qed

subsection \<open>The extraction pass\<close>


lemma uncompress_no_common_path:
  "uncompress ops [] dst (map Entry es) fs =
     write_all ops (map (\<lambda>e. (c_str (join_path ops dst (pathname e)), data e)) es) fs"
  by (induction es arbitrary: fs)
     (auto simp: writeEntry_def split: prod.splits write_status.splits)





subsection \<open>An archive without a manifest\<close>

lemma inspect_no_manifest:
  "\<forall>e\<in>set es. get_file_name ops (pathname e) \<noteq> kPackageJson \<Longrightarrow>
   inspectArchive ops u (map Entry es) acc = Inr acc"
  by (induction es) auto

text \<open>
  C1 as stated fails: the archive \<open>notes_zip\<close> has no entry named like the manifest, and
  installing it into an empty disk leaves the file \<open>/ext/notes/readme.txt\<close> under the
  user extensions directory \<open>/ext\<close>; the exception is the one of the manifest reader.
\<close>

theorem install_without_manifest_counterexample:
  "find (is_manifest_entry demo_ops) (map Entry notes_zip) = None
   \<and> installCompressedExtension demo_ops demo_catalog ''/tmp/notes.zip'' demo_config [] =
       (Inl ManifestParseError, demo_catalog, [(''/ext/notes/readme.txt'', ''hello'')])"
  by (simp add: demo_defs is_manifest_entry_def installCompressedExtension_def ReadArchive_def
      writeEntry_def c_str_def loadExtension_def kPackageJson_def)

text \<open>
  C1, amended. For an archive that has no entry whose filename is the manifest filename,
  the destination is the user extensions directory joined with the title of the
  archive's filename, and every entry of the archive is written under it. When these
  writes succeed and no manifest can then be read at the destination, the install fails
  with the error of the manifest reader; the catalog is as before, and the files written
  stay on the disk.
\<close>

theorem install_without_manifest:
  assumes arch: "ReadArchive ops fs zipFn = Inr (map Entry es)"
    and none: "\<forall>e\<in>set es. get_file_name ops (pathname e) \<noteq> kPackageJson"
    and written:
      "write_all ops
         (map (\<lambda>e. (c_str (join_path ops
                      (join_path ops (m_userExtensionsPath c) (get_file_title ops zipFn))
                      (pathname e)), data e)) es) fs = (None, fs')"
    and absent:
      "parse_file ops fs'
         (join_path ops (join_path ops (m_userExtensionsPath c) (get_file_title ops zipFn))
            kPackageJson) = None"
  shows "installCompressedExtension ops c zipFn cfg fs = (Inl ManifestParseError, c, fs')"
proof -
  have "loadExtension ops c
          (join_path ops (m_userExtensionsPath c) (get_file_title ops zipFn))
          (join_path ops (join_path ops (m_userExtensionsPath c) (get_file_title ops zipFn))
             kPackageJson) False cfg fs' = Inl ManifestParseError"
    using absent by (simp add: loadExtension_def)
  then show ?thesis
    using arch written
    by (simp add: installCompressedExtension_def inspect_no_manifest [OF none]
        uncompress_no_common_path)
qed

theorem install_without_manifest_witness:
  "ReadArchive demo_ops [] ''/tmp/notes.zip'' = Inr (map Entry notes_zip)
   \<and> list_all (\<lambda>e. get_file_name demo_ops (pathname e) \<noteq> kPackageJson) notes_zip
   \<and> installCompressedExtension demo_ops demo_catalog ''/tmp/notes.zip'' demo_config [] =
       (Inl ManifestParseError, demo_catalog, [(''/ext/notes/readme.txt'', ''hello'')])"
proof -
  have arch: "ReadArchive demo_ops [] ''/tmp/notes.zip'' = Inr (map Entry notes_zip)"
    by (simp add: ReadArchive_def demo_ops_def demo_archives_def)
  have none: "\<forall>e\<in>set notes_zip. get_file_name demo_ops (pathname e) \<noteq> kPackageJson"
    by (simp add: notes_zip_def demo_ops_def demo_file_name_def kPackageJson_def)
  have written:
    "write_all demo_ops
       (map (\<lambda>e. (c_str (join_path demo_ops
                    (join_path demo_ops (m_userExtensionsPath demo_catalog)
                       (get_file_title demo_ops ''/tmp/notes.zip''))
                    (pathname e)), data e)) notes_zip) [] =
     (None, [(''/ext/notes/readme.txt'', ''hello'')])"
    by (simp add: demo_defs c_str_def)
  have absent:
    "parse_file demo_ops [(''/ext/notes/readme.txt'', ''hello'')]
       (join_path demo_ops
          (join_path demo_ops (m_userExtensionsPath demo_catalog)
             (get_file_title demo_ops ''/tmp/notes.zip''))
          kPackageJson) = None"
    by (simp add: demo_defs kPackageJson_def)
  from install_without_manifest [OF arch none written absent, of demo_config] arch none
  show ?thesis
    by (simp add: list_all_iff)
qed

subsection \<open>A successful install\<close>

lemma and_then_Inr: "(and_then r k = Inr y) = (\<exists>x. r = Inr x \<and> k x = Inr y)"
  by (cases r) (simp_all add: and_then_def)

lemma and_then_InrE:
  assumes "and_then r k = Inr y"
  obtains x where "r = Inr x" and "k x = Inr y"
  using assms by (cases r) (simp_all add: and_then_def)

lemma json_index_Inr:
  "(json_index j key = Inr v) =
     (\<exists>kvs. j = JObject kvs \<and> v = (case map_of kvs key of None \<Rightarrow> JNull | Some w \<Rightarrow> w))"
  by (auto simp: json_index_def split: json.splits option.splits)

lemma string_field:
  "and_then (json_index j key) get_string = Inr s \<Longrightarrow>
   \<exists>kvs. j = JObject kvs \<and> map_of kvs key = Some (JString s)"
  by (auto simp: and_then_def json_index_def get_string_def split: json.splits option.splits)

lemma required_string_field:
  "and_then (json_at j key) get_string = Inr s \<Longrightarrow>
   \<exists>kvs. j = JObject kvs \<and> map_of kvs key = Some (JString s)"
  by (auto simp: and_then_def json_at_def get_string_def split: json.splits option.splits)

text \<open>
  The inspection pass takes the destination from the name that the first manifest entry
  declares.
\<close>

lemma inspect_manifest:
  "find (is_manifest_entry ops) hs = Some (Entry e) \<Longrightarrow>
   inspectArchive ops u hs acc = Inr (cp, dst) \<Longrightarrow>
   \<exists>n. declared_name ops e = Some n \<and> dst = join_path ops u n"
proof (induction hs)
  case Nil
  then show ?case by simp
next
  case (Cons h hs)
  show ?case
  proof (cases h)
    case Damaged
    with Cons.prems show ?thesis by simp
  next
    case (Entry e')
    show ?thesis
    proof (cases "get_file_name ops (pathname e') = kPackageJson")
      case False
      with Entry Cons show ?thesis
        by (simp add: is_manifest_entry_def)
    next
      case True
      with Entry Cons.prems(1) have e: "e' = e"
        by (simp add: is_manifest_entry_def)
      from True Entry Cons.prems(2) e obtain j n where
        j: "from_stream ops (data e) = Some j" and
        n: "and_then (json_index j ''name'') get_string = Inr n" and
        dst: "dst = join_path ops u n"
        by (auto simp: Let_def and_then_def split: option.splits sum.splits)
      from string_field [OF n] j have "declared_name ops e = Some n"
        by (auto simp: declared_name_def)
      with dst show ?thesis by simp
    qed
  qed
qed

lemma rooted_Cons:
  "m ++ rooted ops root ((i, rel) # decls) =
     m(i \<mapsto> join_path ops root rel) ++ rooted ops root decls"
  by (simp add: rooted_def map_add_assoc [symmetric] map_add_upd)

lemma rooted_SomeD:
  "rooted ops root decls i = Some p \<Longrightarrow>
   \<exists>rel. (i, rel) \<in> set decls \<and> p = join_path ops root rel"
  by (auto simp: rooted_def dest!: map_of_SomeD)

lemma addThemes_result:
  "addThemes ops path xs ext = Inr ext' \<Longrightarrow>
   ext' = ext\<lparr>m_themes := m_themes ext ++ rooted ops path (List.map_filter contribution xs)\<rparr>"
proof (induction xs arbitrary: ext)
  case Nil
  then show ?case by (simp add: rooted_def)
next
  case (Cons x xs)
  from Cons.prems obtain i rel where
    i: "and_then (json_at x ''id'') get_string = Inr i" and
    rel: "and_then (json_at x ''path'') get_string = Inr rel" and
    rest: "addThemes ops path xs (addTheme i (join_path ops path rel) ext) = Inr ext'"
    by (auto simp: and_then_def [of "and_then _ _"] split: sum.splits)
  from required_string_field [OF i] required_string_field [OF rel]
  have "contribution x = Some (i, rel)"
    by (auto simp: contribution_def)
  with Cons.IH [OF rest] show ?case
    by (simp add: rooted_Cons addTheme_def fun_upd_def)
qed

lemma addPalettes_result:
  "addPalettes ops path xs ext = Inr ext' \<Longrightarrow>
   ext' = ext\<lparr>m_palettes := m_palettes ext ++ rooted ops path (List.map_filter contribution xs)\<rparr>"
proof (induction xs arbitrary: ext)
  case Nil
  then show ?case by (simp add: rooted_def)
next
  case (Cons x xs)
  from Cons.prems obtain i rel where
    i: "and_then (json_at x ''id'') get_string = Inr i" and
    rel: "and_then (json_at x ''path'') get_string = Inr rel" and
    rest: "addPalettes ops path xs (addPalette i (join_path ops path rel) ext) = Inr ext'"
    by (auto simp: and_then_def [of "and_then _ _"] split: sum.splits)
  from required_string_field [OF i] required_string_field [OF rel]
  have "contribution x = Some (i, rel)"
    by (auto simp: contribution_def)
  with Cons.IH [OF rest] show ?case
    by (simp add: rooted_Cons addPalette_def fun_upd_def)
qed

lemma contributions_result:
  assumes body:
    "(if is_object contributes then
        and_then (json_index contributes ''themes'') (\<lambda>themes.
        and_then
          (case themes of
             JArray xs \<Rightarrow> addThemes ops path xs ext0
           | _ \<Rightarrow> Inr ext0) (\<lambda>extension.
        and_then (json_index contributes ''palettes'') (\<lambda>palettes.
          (case palettes of
             JArray xs \<Rightarrow> addPalettes ops path xs extension
           | _ \<Rightarrow> Inr extension))))
      else Inr ext0) = Inr ext"
    and look: "json_index j ''contributes'' = Inr contributes"
  shows "ext = ext0\<lparr>m_themes := m_themes ext0 ++ rooted ops path (declared j ''themes''),
                    m_palettes := m_palettes ext0 ++ rooted ops path (declared j ''palettes'')\<rparr>"
proof (cases "is_object contributes")
  case False
  with body have "ext = ext0" by simp
  moreover from False look have "declared j kind = []" for kind
    by (auto simp: declared_def is_object_def json_index_Inr split: option.splits json.splits)
  ultimately show ?thesis
    by (simp add: rooted_def)
next
  case True
  then obtain ckvs where ckvs: "contributes = JObject ckvs"
    by (auto simp: is_object_def split: json.splits)
  with look obtain kvs where j: "j = JObject kvs"
    and lk: "map_of kvs ''contributes'' = Some (JObject ckvs)"
    by (auto simp: json_index_Inr split: option.splits)
  have decl: "declared j kind =
      (case map_of ckvs kind of Some (JArray xs) \<Rightarrow> List.map_filter contribution xs | _ \<Rightarrow> [])"
    for kind
    by (simp add: declared_def j lk)
  from True body ckvs obtain ext1 where
    themes: "(case (case map_of ckvs ''themes'' of None \<Rightarrow> JNull | Some v \<Rightarrow> v) of
                JArray xs \<Rightarrow> addThemes ops path xs ext0
              | _ \<Rightarrow> Inr ext0) = Inr ext1" and
    palettes: "(case (case map_of ckvs ''palettes'' of None \<Rightarrow> JNull | Some v \<Rightarrow> v) of
                JArray xs \<Rightarrow> addPalettes ops path xs ext1
              | _ \<Rightarrow> Inr ext1) = Inr ext"
    by (auto simp: and_then_Inr json_index_Inr)
  from themes have ext1:
    "ext1 = ext0\<lparr>m_themes := m_themes ext0 ++ rooted ops path (declared j ''themes'')\<rparr>"
    by (auto simp: decl rooted_def dest!: addThemes_result split: option.splits json.splits)
  from palettes have
    "ext = ext1\<lparr>m_palettes := m_palettes ext1 ++ rooted ops path (declared j ''palettes'')\<rparr>"
    by (auto simp: decl rooted_def dest!: addPalettes_result split: option.splits json.splits)
  with ext1 show ?thesis
    by simp
qed

lemma loadExtension_result:
  assumes "loadExtension ops c path full builtin cfg fs = Inr (ext, c')"
  shows "m_path ext = path \<and> c' = c\<lparr>m_extensions := m_extensions c @ [ext]\<rparr>
     \<and> (\<exists>j. parse_file ops fs full = Some j
            \<and> m_themes ext = rooted ops path (declared j ''themes'')
            \<and> m_palettes ext = rooted ops path (declared j ''palettes''))"
  using assms unfolding loadExtension_def Let_def
  apply (simp split: option.splits)
  apply (elim exE conjE and_then_InrE)
  apply (drule (1) contributions_result)
  apply (auto simp: Extension_def)
  done

text \<open>
  C9. After a successful install from an archive whose manifest entry declares the name
  \<open>n\<close>, the package appended to the catalog has the user extensions directory joined with
  \<open>n\<close> as its root, and its theme and palette mappings hold, for the contributions that
  the manifest at the destination declares, the root joined with the declared relative
  path: every stored path is such a join.
\<close>

theorem install_paths:
  assumes ok: "installCompressedExtension ops c zipFn cfg fs = (Inr ext, c', fs')"
    and arch: "ReadArchive ops fs zipFn = Inr hs"
    and man: "find (is_manifest_entry ops) hs = Some (Entry e)"
    and name: "declared_name ops e = Some n"
  shows "m_path ext = join_path ops (m_userExtensionsPath c) n
     \<and> m_extensions c' = m_extensions c @ [ext]
     \<and> (\<exists>j. parse_file ops fs' (join_path ops (m_path ext) kPackageJson) = Some j
            \<and> m_themes ext = rooted ops (m_path ext) (declared j ''themes'')
            \<and> m_palettes ext = rooted ops (m_path ext) (declared j ''palettes'')
            \<and> (\<forall>i p. m_themes ext i = Some p \<longrightarrow>
                  (\<exists>rel. (i, rel) \<in> set (declared j ''themes'')
                        \<and> p = join_path ops (m_path ext) rel))
            \<and> (\<forall>i p. m_palettes ext i = Some p \<longrightarrow>
                  (\<exists>rel. (i, rel) \<in> set (declared j ''palettes'')
                        \<and> p = join_path ops (m_path ext) rel)))"
proof -
  from ok arch obtain cp dst c0 where
    insp: "inspectArchive ops (m_userExtensionsPath c) hs
             ([], join_path ops (m_userExtensionsPath c) (get_file_title ops zipFn))
           = Inr (cp, dst)"
    and load: "loadExtension ops c dst (join_path ops dst kPackageJson) False cfg fs'
           = Inr (ext, c0)"
    and c': "c' = c0\<lparr>signals := signals c0 @ [NewExtension (m_name ext)]
                       @ generateExtensionSignals ext\<rparr>"
    by (auto simp: installCompressedExtension_def Let_def
        split: sum.splits prod.splits option.splits)
  from inspect_manifest [OF man insp] name
  have dst: "dst = join_path ops (m_userExtensionsPath c) n"
    by auto
  from loadExtension_result [OF load] obtain j where
    root: "m_path ext = dst" and
    c0: "c0 = c\<lparr>m_extensions := m_extensions c @ [ext]\<rparr>" and
    j: "parse_file ops fs' (join_path ops dst kPackageJson) = Some j" and
    themes: "m_themes ext = rooted ops dst (declared j ''themes'')" and
    palettes: "m_palettes ext = rooted ops dst (declared j ''palettes'')"
    by auto
  from themes have "\<forall>i p. m_themes ext i = Some p \<longrightarrow>
      (\<exists>rel. (i, rel) \<in> set (declared j ''themes'') \<and> p = join_path ops dst rel)"
    by (auto dest: rooted_SomeD)
  moreover from palettes have "\<forall>i p. m_palettes ext i = Some p \<longrightarrow>
      (\<exists>rel. (i, rel) \<in> set (declared j ''palettes'') \<and> p = join_path ops dst rel)"
    by (auto dest: rooted_SomeD)
  ultimately show ?thesis
    using root dst c0 c' j themes palettes by auto
qed

theorem install_paths_witness:
  "installCompressedExtension demo_ops demo_catalog ''/tmp/foo.zip'' demo_config [] =
     (Inr foo_ext,
      \<lparr>m_userExtensionsPath = ''/ext'', m_extensions = [foo_ext],
       signals = [NewExtension ''foo'', ThemesChange ''foo'', PalettesChange ''foo'']\<rparr>,
      foo_disk)
   \<and> declared_name demo_ops \<lparr>pathname = ''foo/package.json'', data = ''{foo}''\<rparr> = Some ''foo''
   \<and> m_path foo_ext = ''/ext/foo''
   \<and> parse_file demo_ops foo_disk ''/ext/foo/package.json'' = Some demo_manifest
   \<and> m_themes foo_ext = rooted demo_ops ''/ext/foo'' (declared demo_manifest ''themes'')
   \<and> m_palettes foo_ext = rooted demo_ops ''/ext/foo'' (declared demo_manifest ''palettes'')"
proof -
  have ok: "installCompressedExtension demo_ops demo_catalog ''/tmp/foo.zip'' demo_config [] =
     (Inr foo_ext,
      \<lparr>m_userExtensionsPath = ''/ext'', m_extensions = [foo_ext],
       signals = [NewExtension ''foo'', ThemesChange ''foo'', PalettesChange ''foo'']\<rparr>,
      foo_disk)"
    by (simp add: demo_defs installCompressedExtension_def ReadArchive_def writeEntry_def
        c_str_def loadExtension_def json_index_def json_at_def get_string_def is_object_def and_then_def
        Extension_def addTheme_def addPalette_def generateExtensionSignals_def
        get_config_bool_def kPackageJson_def)
  have arch: "ReadArchive demo_ops [] ''/tmp/foo.zip'' = Inr (map Entry foo_zip)"
    by (simp add: ReadArchive_def demo_ops_def demo_archives_def)
  have man: "find (is_manifest_entry demo_ops) (map Entry foo_zip)
      = Some (Entry \<lparr>pathname = ''foo/package.json'', data = ''{foo}''\<rparr>)"
    by (simp add: is_manifest_entry_def foo_zip_def demo_ops_def demo_file_name_def
        kPackageJson_def)
  have name: "declared_name demo_ops \<lparr>pathname = ''foo/package.json'', data = ''{foo}''\<rparr>
      = Some ''foo''"
    by (simp add: declared_name_def demo_ops_def demo_json_def demo_manifest_def)
  have disk: "parse_file demo_ops foo_disk ''/ext/foo/package.json'' = Some demo_manifest"
    by (simp add: demo_ops_def foo_disk_def demo_json_def)
  have root: "join_path demo_ops (m_userExtensionsPath demo_catalog) ''foo'' = ''/ext/foo''"
    by (simp add: demo_ops_def demo_catalog_def demo_join_path_def)
  have mfile: "join_path demo_ops ''/ext/foo'' kPackageJson = ''/ext/foo/package.json''"
    by (simp add: demo_ops_def demo_join_path_def kPackageJson_def)
  note paths = install_paths [OF ok arch man name]
  from paths root have path: "m_path foo_ext = ''/ext/foo''"
    by simp
  from paths obtain j where
    j: "parse_file demo_ops foo_disk (join_path demo_ops (m_path foo_ext) kPackageJson) = Some j"
    and themes: "m_themes foo_ext = rooted demo_ops (m_path foo_ext) (declared j ''themes'')"
    and palettes: "m_palettes foo_ext = rooted demo_ops (m_path foo_ext) (declared j ''palettes'')"
    by blast
  from j path mfile disk have "j = demo_manifest"
    by simp
  with themes palettes path ok name disk show ?thesis
    by simp
qed

end
